theory Spec2Isabelle
  imports Main "HOL-Library.Word"
begin

unbundle bit_operations_syntax

section \<open>Machine types\<close>

text \<open>
  The driver is C for an STM32 (ARM Cortex-M): \<open>uint8_t\<close> and \<open>uint16_t\<close> are 8 and
  16 bits, \<open>int\<close> is 32 bits. Every operand narrower than \<open>int\<close> is promoted to
  \<open>int\<close> before \<open>|\<close>, \<open>&\<close>, \<open><<\<close> and \<open>>>\<close>, and the result is cut to the width of
  the object it is stored in or passed as; both conversions are written \<open>ucast\<close> below.
  The values the driver shifts right are never negative, so \<open>>>\<close> is \<open>drop_bit\<close>. A
  left shift of an \<open>int\<close> argument that overflows is undefined in C; the model keeps the
  low 32 bits, as the target does.
\<close>

type_synonym u8 = "8 word"
type_synonym u16 = "16 word"
type_synonym s32 = "32 word"

section \<open>Constants of \<open>mcp47feb.c\<close>\<close>

text \<open>The \<open>#define\<close>s are \<open>int\<close> literals.\<close>

definition READ :: s32 where "READ = 0x06"
definition WRITE :: s32 where "WRITE = 0x00"
definition DAC0_REG :: s32 where "DAC0_REG = 0x00"
definition DAC1_REG :: s32 where "DAC1_REG = 0x01"
definition VREF_REG :: s32 where "VREF_REG = 0x08"
definition PD_REG :: s32 where "PD_REG = 0x09"
definition GAIN_REG :: s32 where "GAIN_REG = 0x0A"
definition WL_REG :: s32 where "WL_REG = 0x0B"
definition DAC0_EP_REG :: s32 where "DAC0_EP_REG = 0x10"
definition DAC1_EP_REG :: s32 where "DAC1_EP_REG = 0x11"
definition VREF_EP_REG :: s32 where "VREF_EP_REG = 0x18"
definition PD_EP_REG :: s32 where "PD_EP_REG = 0x19"
definition GAIN_EP_REG :: s32 where "GAIN_EP_REG = 0x1A"
definition SALCK :: s32 where "SALCK = 0xD0"
definition UNLOCK_SALCK :: s32 where "UNLOCK_SALCK = 0x02"
definition LOCK_SALCK :: s32 where "LOCK_SALCK = 0x04"

section \<open>The device handle and the bus\<close>

text \<open>
  \<open>MCP47FEB_TypeDef\<close> is declared in \<open>mcp47feb.h\<close>, which is not among the sources. Its
  two fields, in this order, are read off the initialiser in \<open>MCP47FEB_LockSALCK\<close> and
  the assignments in \<open>MCP47FEB_Init\<close>; \<open>devAddr\<close> takes a \<open>uint8_t\<close>. The transport
  handle (\<open>I2C_HandleTypeDef *\<close>) is an opaque value of type \<open>'h\<close>.
\<close>

record 'h MCP47FEB_TypeDef =
  devAddr :: u8
  hi2c :: "'h"

text \<open>
  The STM32 HAL is the external bus transport. Each call of it is recorded as one event:
  the transport handle, the 16-bit \<open>DevAddress\<close> argument, and the bytes sent or the
  number of bytes asked for. The timeout argument of a transfer, the macro
  \<open>MCP47FEB_I2C_DELAY\<close> of the absent header, is not recorded.
\<close>

datatype 'h bus_event =
    Transmit 'h u16 "u8 list"
  | Receive 'h u16 nat
  | IsDeviceReady 'h u16 nat nat

datatype HAL_StatusTypeDef = HAL_OK | HAL_ERROR | HAL_BUSY | HAL_TIMEOUT

text \<open>
  The state the driver's functions run in: the handle object the caller's \<open>dac\<close> pointer
  refers to, the file-level scratch array \<open>readBuffer[5]\<close>, the calls made on the bus
  so far (oldest first), and the environment. The environment is the device seen
  through the transport: \<open>device\<close> maps the history of the bus, up to and including a
  receive request, to the bytes that request delivers (fewer than asked for when the
  transfer fails), and \<open>ready\<close> maps it to the status of a presence probe.
\<close>

record 'h driver_state =
  dac :: "'h MCP47FEB_TypeDef"
  readBuffer :: "u8 list"
  bus :: "'h bus_event list"
  device :: "'h bus_event list \<Rightarrow> u8 list"
  ready :: "'h bus_event list \<Rightarrow> HAL_StatusTypeDef"

text \<open>
  The three HAL primitives the driver calls; their code is the vendor's, not the
  driver's. A transmit sends the first \<open>Size\<close> bytes of its array. A receive overwrites
  the front of the buffer with the bytes delivered and leaves the rest of it as it was:
  \<open>received got pData\<close> is the buffer \<open>pData\<close> after the bytes \<open>got\<close> have arrived.
  The driver drops the status of a transfer, so the model returns none.
\<close>

definition received :: "u8 list \<Rightarrow> u8 list \<Rightarrow> u8 list" where
  "received got pData = got @ drop (length got) pData"

definition HAL_I2C_Master_Transmit ::
  "'h \<Rightarrow> u16 \<Rightarrow> u8 list \<Rightarrow> nat \<Rightarrow> 'h driver_state \<Rightarrow> 'h driver_state" where
  "HAL_I2C_Master_Transmit h DevAddress pData Size s =
     s\<lparr>bus := bus s @ [Transmit h DevAddress (take Size pData)]\<rparr>"

definition HAL_I2C_Master_Receive ::
  "'h \<Rightarrow> u16 \<Rightarrow> u8 list \<Rightarrow> nat \<Rightarrow> 'h driver_state \<Rightarrow> u8 list \<times> 'h driver_state" where
  "HAL_I2C_Master_Receive h DevAddress pData Size s =
     (let tr = bus s @ [Receive h DevAddress Size]
      in (received (take Size (device s tr)) pData, s\<lparr>bus := tr\<rparr>))"

definition HAL_I2C_IsDeviceReady ::
  "'h \<Rightarrow> u16 \<Rightarrow> nat \<Rightarrow> nat \<Rightarrow> 'h driver_state \<Rightarrow> HAL_StatusTypeDef \<times> 'h driver_state" where
  "HAL_I2C_IsDeviceReady h DevAddress Trials Timeout s =
     (let tr = bus s @ [IsDeviceReady h DevAddress Trials Timeout]
      in (ready s tr, s\<lparr>bus := tr\<rparr>))"

text \<open>The expression \<open>dac->devAddr<<1\<close>, computed in \<open>int\<close> and passed as \<open>uint16_t\<close>.\<close>

definition DevAddress8 :: "'h MCP47FEB_TypeDef \<Rightarrow> u16" where
  "DevAddress8 d = ucast (push_bit 1 (ucast (devAddr d) :: s32))"

section \<open>Device lifecycle\<close>

definition MCP47FEB_Init :: "u8 \<Rightarrow> 'h \<Rightarrow> 'h driver_state \<Rightarrow> 'h driver_state" where
  "MCP47FEB_Init devAddr' hi2c' s = s\<lparr>dac := (dac s)\<lparr>devAddr := devAddr', hi2c := hi2c'\<rparr>\<rparr>"

definition MCP47FEB_IsReady :: "'h driver_state \<Rightarrow> HAL_StatusTypeDef \<times> 'h driver_state" where
  "MCP47FEB_IsReady s = HAL_I2C_IsDeviceReady (hi2c (dac s)) (DevAddress8 (dac s)) 2 2 s"

section \<open>Register framing\<close>

text \<open>
  The four static functions \<open>_ReadEpAddr\<close>, \<open>_ReadAddr\<close>, \<open>_FastWrite\<close> and
  \<open>_WriteAddr\<close> (an Isabelle name cannot start with an underscore). They only read
  the handle they are given, so they take it by value. The two read functions return
  the new content of the array they were handed.
\<close>

definition ReadEpAddr ::
  "'h MCP47FEB_TypeDef \<Rightarrow> u8 \<Rightarrow> u8 list \<Rightarrow> 'h driver_state \<Rightarrow> u8 list \<times> 'h driver_state" where
  "ReadEpAddr d REG buffer s =
     (let readReg = (ucast (0x80 OR (READ OR push_bit 3 (ucast REG :: s32))) :: u8);
          s1 = HAL_I2C_Master_Transmit (hi2c d) (DevAddress8 d) [readReg] 1 s
      in HAL_I2C_Master_Receive (hi2c d) (DevAddress8 d) buffer 2 s1)"

definition ReadAddr ::
  "'h MCP47FEB_TypeDef \<Rightarrow> u8 \<Rightarrow> u8 list \<Rightarrow> 'h driver_state \<Rightarrow> u8 list \<times> 'h driver_state" where
  "ReadAddr d REG buffer s =
     (let readReg = (ucast (READ OR push_bit 3 (ucast REG :: s32)) :: u8);
          s1 = HAL_I2C_Master_Transmit (hi2c d) (DevAddress8 d) [readReg] 1 s
      in HAL_I2C_Master_Receive (hi2c d) (DevAddress8 d) buffer 2 s1)"

text \<open>\<open>payload\<close> has 8 elements in \<open>_FastWrite\<close>; only the first three are set and sent.\<close>

definition FastWrite ::
  "'h MCP47FEB_TypeDef \<Rightarrow> u8 \<Rightarrow> u16 \<Rightarrow> 'h driver_state \<Rightarrow> 'h driver_state" where
  "FastWrite d REG DATA s =
     (let payload0 = (ucast (push_bit 3 (ucast REG :: s32) OR WRITE) :: u8);
          payload1 = (ucast (drop_bit 8 (ucast DATA :: s32) AND 0xFF) :: u8);
          payload2 = (ucast ((ucast DATA :: s32) AND 0xFF) :: u8)
      in HAL_I2C_Master_Transmit (hi2c d) (DevAddress8 d) [payload0, payload1, payload2] 3 s)"

definition WriteAddr ::
  "'h MCP47FEB_TypeDef \<Rightarrow> u8 \<Rightarrow> u8 \<Rightarrow> 'h driver_state \<Rightarrow> 'h driver_state" where
  "WriteAddr d REG data s =
     (let payload0 = (ucast ((ucast REG :: s32) OR WRITE) :: u8);
          payload = (if (ucast REG :: s32) = GAIN_REG
                     then [payload0, data, 0]
                     else [payload0, 0, data])
      in HAL_I2C_Master_Transmit (hi2c d) (DevAddress8 d) payload 3 s)"

section \<open>Address lock and unlock\<close>

definition MCP47FEB_UnlockSALCK :: "'h driver_state \<Rightarrow> 'h driver_state" where
  "MCP47FEB_UnlockSALCK s = WriteAddr (dac s) (ucast (SALCK OR UNLOCK_SALCK)) 0 s"

definition MCP47FEB_LockSALCK :: "u8 \<Rightarrow> 'h driver_state \<Rightarrow> 'h driver_state" where
  "MCP47FEB_LockSALCK addr s =
     (let BIAS_DAC = \<lparr>devAddr = addr, hi2c = hi2c (dac s)\<rparr>
      in WriteAddr BIAS_DAC (ucast (SALCK OR UNLOCK_SALCK)) 0 s)"

section \<open>Per-attribute accessors\<close>

text \<open>
  A channel or value parameter of type \<open>int\<close> is an \<open>s32\<close>, one of type \<open>uint8_t\<close> a
  \<open>u8\<close>. The accessors that read into the file-level \<open>readBuffer\<close> store the new content
  back into the state; \<open>MCP47FEB_GetGain\<close> reads into a local array of five zeros.
\<close>

definition MCP47FEB_GetPowerDown :: "s32 \<Rightarrow> 'h driver_state \<Rightarrow> u8 \<times> 'h driver_state" where
  "MCP47FEB_GetPowerDown channel s =
     (let (rb, s1) = ReadAddr (dac s) (ucast PD_REG) (readBuffer s) s;
          s2 = s1\<lparr>readBuffer := rb\<rparr>;
          powerDown0 = (ucast ((ucast (rb ! 1) :: s32) AND 0x03) :: u8);
          powerDown1 = (ucast (drop_bit 2 ((ucast (rb ! 1) :: s32) AND 0x0C)) :: u8)
      in (if channel = 0 then powerDown0 else powerDown1, s2))"

definition MCP47FEB_SetPowerDown :: "s32 \<Rightarrow> s32 \<Rightarrow> 'h driver_state \<Rightarrow> 'h driver_state" where
  "MCP47FEB_SetPowerDown val0 val1 s =
     WriteAddr (dac s) (ucast PD_REG) (ucast (val0 OR push_bit 2 val1)) s"

definition MCP47FEB_GetPowerDownEp :: "s32 \<Rightarrow> 'h driver_state \<Rightarrow> u8 \<times> 'h driver_state" where
  "MCP47FEB_GetPowerDownEp channel s =
     (let (rb, s1) = ReadEpAddr (dac s) (ucast PD_REG) (readBuffer s) s;
          s2 = s1\<lparr>readBuffer := rb\<rparr>;
          powerDownEp0 = (ucast ((ucast (rb ! 1) :: s32) AND 0x03) :: u8);
          powerDownEp1 = (ucast (drop_bit 2 ((ucast (rb ! 1) :: s32) AND 0x0C)) :: u8)
      in (if channel = 0 then powerDownEp0 else powerDownEp1, s2))"

definition MCP47FEB_GetGain :: "s32 \<Rightarrow> 'h driver_state \<Rightarrow> u8 \<times> 'h driver_state" where
  "MCP47FEB_GetGain channel s =
     (let (buff, s1) = ReadAddr (dac s) (ucast GAIN_REG) [0, 0, 0, 0, 0] s;
          gain0 = (ucast ((ucast (buff ! 0) :: s32) AND 0x01) :: u8);
          gain1 = (ucast (drop_bit 1 ((ucast (buff ! 0) :: s32) AND 0x02)) :: u8)
      in (if channel = 0 then gain0 else gain1, s1))"

definition MCP47FEB_SetGain :: "s32 \<Rightarrow> s32 \<Rightarrow> 'h driver_state \<Rightarrow> 'h driver_state" where
  "MCP47FEB_SetGain val0 val1 s =
     WriteAddr (dac s) (ucast GAIN_REG) (ucast (val0 OR push_bit 1 val1)) s"

definition MCP47FEB_GetGainEp :: "s32 \<Rightarrow> 'h driver_state \<Rightarrow> u8 \<times> 'h driver_state" where
  "MCP47FEB_GetGainEp channel s =
     (let (rb, s1) = ReadEpAddr (dac s) (ucast GAIN_REG) (readBuffer s) s;
          s2 = s1\<lparr>readBuffer := rb\<rparr>;
          gainEp0 = (ucast ((ucast (rb ! 0) :: s32) AND 0x01) :: u8);
          gainEp1 = (ucast (drop_bit 1 ((ucast (rb ! 0) :: s32) AND 0x02)) :: u8)
      in (if channel = 0 then gainEp0 else gainEp1, s2))"

definition MCP47FEB_GetVref :: "u8 \<Rightarrow> 'h driver_state \<Rightarrow> u8 \<times> 'h driver_state" where
  "MCP47FEB_GetVref channel s =
     (let (rb, s1) = ReadAddr (dac s) (ucast VREF_REG) (readBuffer s) s;
          s2 = s1\<lparr>readBuffer := rb\<rparr>;
          intVref0 = (ucast ((ucast (rb ! 1) :: s32) AND 0x03) :: u8);
          intVref1 = (ucast (drop_bit 2 ((ucast (rb ! 1) :: s32) AND 0x0C)) :: u8)
      in (if channel = 0 then intVref0 else intVref1, s2))"

definition MCP47FEB_SetVref :: "u8 \<Rightarrow> u8 \<Rightarrow> 'h driver_state \<Rightarrow> 'h driver_state" where
  "MCP47FEB_SetVref val0 val1 s =
     WriteAddr (dac s) (ucast VREF_REG)
       (ucast ((ucast val0 :: s32) OR push_bit 2 (ucast val1 :: s32))) s"

definition MCP47FEB_GetVrefEp :: "u8 \<Rightarrow> 'h driver_state \<Rightarrow> u8 \<times> 'h driver_state" where
  "MCP47FEB_GetVrefEp channel s =
     (let (rb, s1) = ReadEpAddr (dac s) (ucast VREF_REG) (readBuffer s) s;
          s2 = s1\<lparr>readBuffer := rb\<rparr>;
          intVrefEp0 = (ucast ((ucast (rb ! 1) :: s32) AND 0x03) :: u8);
          intVrefEp1 = (ucast (drop_bit 2 ((ucast (rb ! 1) :: s32) AND 0x0C)) :: u8)
      in (if channel = 0 then intVrefEp0 else intVrefEp1, s2))"

text \<open>
  \<open>word(x,y)\<close> is the macro \<open>((x << 8) | y)\<close>; \<open>MCP47FEB_GetValue\<close> hands
  \<open>channel << 3\<close> to \<open>_ReadAddr\<close> as the register.
\<close>

definition MCP47FEB_GetValue :: "u8 \<Rightarrow> 'h driver_state \<Rightarrow> u16 \<times> 'h driver_state" where
  "MCP47FEB_GetValue channel s =
     (let (rb, s1) = ReadAddr (dac s) (ucast (push_bit 3 (ucast channel :: s32))) (readBuffer s) s;
          s2 = s1\<lparr>readBuffer := rb\<rparr>
      in (ucast (push_bit 8 ((ucast (rb ! 0) :: s32) AND 0x0F) OR (ucast (rb ! 1) :: s32)), s2))"

definition MCP47FEB_AnalogWrite :: "u16 \<Rightarrow> u16 \<Rightarrow> 'h driver_state \<Rightarrow> 'h driver_state" where
  "MCP47FEB_AnalogWrite val0 val1 s =
     (let val0' = (ucast ((ucast val0 :: s32) AND 0xFFF) :: u16);
          val1' = (ucast ((ucast val1 :: s32) AND 0xFFF) :: u16);
          s1 = FastWrite (dac s) (ucast DAC0_REG) val0' s
      in FastWrite (dac s1) (ucast DAC1_REG) val1' s1)"

section \<open>Bulk non-volatile persistence\<close>

text \<open>
  The operands of \<open>|\<close> in the gain and power-down lines are two calls whose order C does
  not fix; they are taken left to right, channel 0 first. Both calls put the same bytes
  on the bus.
\<close>

definition MCP47FEB_EEPROMWrite :: "'h driver_state \<Rightarrow> 'h driver_state" where
  "MCP47FEB_EEPROMWrite s =
     (let (value0, s1) = MCP47FEB_GetValue 0 s;
          s2 = FastWrite (dac s1) (ucast DAC0_EP_REG) value0 s1;
          (value1, s3) = MCP47FEB_GetValue 1 s2;
          s4 = FastWrite (dac s3) (ucast DAC1_EP_REG) value1 s3;
          (r0, s5) = MCP47FEB_GetVref 0 s4;
          vref0 = (ucast r0 :: u16);
          (r1, s6) = MCP47FEB_GetVref 1 s5;
          vref1 = (ucast r1 :: u16);
          s7 = FastWrite (dac s6) (ucast VREF_EP_REG)
                 (ucast ((ucast vref0 :: s32) OR push_bit 2 (ucast vref1 :: s32))) s6;
          (gain0, s8) = MCP47FEB_GetGain 0 s7;
          (gain1, s9) = MCP47FEB_GetGain 1 s8;
          s10 = FastWrite (dac s9) (ucast GAIN_EP_REG)
                  (ucast (push_bit 8 ((ucast gain0 :: s32) OR push_bit 1 (ucast gain1 :: s32)))) s9;
          (pd0, s11) = MCP47FEB_GetPowerDown 0 s10;
          (pd1, s12) = MCP47FEB_GetPowerDown 1 s11
      in FastWrite (dac s12) (ucast PD_EP_REG)
           (ucast ((ucast pd0 :: s32) OR push_bit 2 (ucast pd1 :: s32))) s12)"

section \<open>A simulated device\<close>

text \<open>
  Modelled from the spec: the simulated device of the round-trip property in section 8
  of the specification (\<open>a simulated device that echoes written bits back on read\<close>);
  the repository has no such test double. It decodes the bus as section 6 frames it. A
  three-byte transmission is an addressed write: the command byte is the register index,
  unshifted, and the two data bytes become the content of that register. A one-byte
  transmission \<open>0x06 | (register << 3)\<close> is a read command and selects that register.
  A receive delivers the two bytes of the selected register. Every register starts as
  two zero bytes; the bus address and the transport handle are ignored.
\<close>

record sim_state =
  sim_regs :: "u8 \<Rightarrow> u8 list"
  sim_sel :: u8

fun sim_step :: "sim_state \<Rightarrow> 'h bus_event \<Rightarrow> sim_state" where
  "sim_step d (Transmit h a [c]) =
     (if c AND 0x07 = 0x06 then d\<lparr>sim_sel := drop_bit 3 c\<rparr> else d)"
| "sim_step d (Transmit h a [c, p1, p2]) = d\<lparr>sim_regs := (sim_regs d)(c := [p1, p2])\<rparr>"
| "sim_step d _ = d"

definition sim_device :: "'h bus_event list \<Rightarrow> u8 list" where
  "sim_device tr =
     (let d = foldl sim_step \<lparr>sim_regs = (\<lambda>_. [0, 0]), sim_sel = 0\<rparr> tr
      in sim_regs d (sim_sel d))"

text \<open>
  The program at start-up, on a bus with the simulated device: \<open>readBuffer\<close> is zeroed
  static storage, nothing has been sent, and the handle object has not been through
  \<open>MCP47FEB_Init\<close> yet. The transport handle is the one value of type \<open>unit\<close>.
\<close>

definition sim_start :: "unit driver_state" where
  "sim_start =
     \<lparr>dac = \<lparr>devAddr = 0, hi2c = ()\<rparr>, readBuffer = [0, 0, 0, 0, 0], bus = [],
      device = sim_device, ready = (\<lambda>_. HAL_OK)\<rparr>"

text \<open>
  The same program after the handle was bound to address 0x60 and the three setters were
  called: reference 2 and 1, gain 0 and 1, power-down 1 and 2 for channels 0 and 1.
\<close>

definition sim_configured :: "unit driver_state" where
  "sim_configured =
     MCP47FEB_SetPowerDown 1 2 (MCP47FEB_SetGain 0 1 (MCP47FEB_SetVref 2 1
       (MCP47FEB_Init 0x60 () sim_start)))"

section \<open>Conversions between the integer widths\<close>

lemmas reg_defs =
  READ_def WRITE_def DAC0_REG_def DAC1_REG_def VREF_REG_def PD_REG_def GAIN_REG_def
  WL_REG_def DAC0_EP_REG_def DAC1_EP_REG_def VREF_EP_REG_def PD_EP_REG_def
  GAIN_EP_REG_def SALCK_def UNLOCK_SALCK_def LOCK_SALCK_def

lemma mask_numerals:
  "(0x01 :: 'a::len word) = mask 1" "(0x03 :: 'a::len word) = mask 2"
  "(0x0F :: 'a::len word) = mask 4" "(0xFF :: 'a::len word) = mask 8"
  "(0xFFF :: 'a::len word) = mask 12"
  by (simp_all add: mask_eq_exp_minus_1)

lemma cast_read:
  "(ucast (READ OR push_bit 3 (ucast (r::u8) :: s32)) :: u8) = 0x06 OR push_bit 3 r"
  unfolding READ_def
  by (rule bit_word_eqI) (auto simp add: bit_simps)

lemma cast_read_ep:
  "(ucast (0x80 OR (READ OR push_bit 3 (ucast (r::u8) :: s32))) :: u8) =
     0x80 OR (0x06 OR push_bit 3 r)"
  unfolding READ_def
  by (rule bit_word_eqI) (auto simp add: bit_simps)

lemma cast_fast0: "(ucast (push_bit 3 (ucast (r::u8) :: s32) OR WRITE) :: u8) = push_bit 3 r"
  unfolding WRITE_def
  by (rule bit_word_eqI) (auto simp add: bit_simps)

lemma cast_fast1:
  "(ucast (drop_bit 8 (ucast (v::u16) :: s32) AND 0xFF) :: u8) = ucast (drop_bit 8 v)"
  unfolding mask_numerals
  by (rule bit_word_eqI) (auto simp add: bit_simps)

lemma cast_fast2: "(ucast ((ucast (v::u16) :: s32) AND 0xFF) :: u8) = ucast v"
  unfolding mask_numerals
  by (rule bit_word_eqI) (auto simp add: bit_simps)

lemma cast_addr0: "(ucast ((ucast (r::u8) :: s32) OR WRITE) :: u8) = r"
  unfolding WRITE_def
  by (rule bit_word_eqI) (auto simp add: bit_simps)

lemma is_gain: "((ucast (r::u8) :: s32) = GAIN_REG) = (r = 0x0A)"
proof
  assume "(ucast r :: s32) = GAIN_REG"
  then have "(ucast (ucast r :: s32) :: u8) = ucast GAIN_REG"
    by simp
  then show "r = 0x0A"
    by (simp add: GAIN_REG_def ucast_up_ucast_id is_up)
next
  assume "r = 0x0A"
  then show "(ucast r :: s32) = GAIN_REG"
    by (simp add: GAIN_REG_def)
qed

lemma shifted_masks:
  "(0x0C :: 'a::len word) = push_bit 2 (mask 2)" "(0x02 :: 'a::len word) = push_bit 1 (mask 1)"
  by (simp_all add: mask_eq_exp_minus_1)

lemma cast_field0: "(ucast ((ucast (b::u8) :: s32) AND 0x03) :: u8) = b AND 0x03"
  unfolding mask_numerals
  by (rule bit_word_eqI) (auto simp add: bit_simps)

lemma cast_field1:
  "(ucast (drop_bit 2 ((ucast (b::u8) :: s32) AND 0x0C)) :: u8) = drop_bit 2 (b AND 0x0C)"
  unfolding shifted_masks
  by (rule bit_word_eqI) (auto simp add: bit_simps)

lemma cast_gain0: "(ucast ((ucast (b::u8) :: s32) AND 0x01) :: u8) = b AND 0x01"
  unfolding mask_numerals
  by (rule bit_word_eqI) (auto simp add: bit_simps)

lemma cast_gain1:
  "(ucast (drop_bit 1 ((ucast (b::u8) :: s32) AND 0x02)) :: u8) = drop_bit 1 (b AND 0x02)"
  unfolding shifted_masks
  by (rule bit_word_eqI) (auto simp add: bit_simps)

lemma field0_le: "(b::u8) AND 0x03 \<le> 3"
  by (rule word_and_le1)

lemma field1_le: "drop_bit 2 ((b::u8) AND 0x0C) \<le> 3"
proof -
  have "drop_bit 2 (b AND 0x0C) = drop_bit 2 b AND 0x03"
    unfolding shifted_masks mask_numerals
    by (rule bit_word_eqI) (auto simp add: bit_simps)
  then show ?thesis
    by (simp only: word_and_le1)
qed

lemma gain0_le: "(b::u8) AND 0x01 \<le> 1"
  by (rule word_and_le1)

lemma gain1_le: "drop_bit 1 ((b::u8) AND 0x02) \<le> 1"
proof -
  have "drop_bit 1 (b AND 0x02) = drop_bit 1 b AND 0x01"
    unfolding shifted_masks mask_numerals
    by (rule bit_word_eqI) (auto simp add: bit_simps)
  then show ?thesis
    by (simp only: word_and_le1)
qed

lemma cast_value:
  "(ucast (push_bit 8 ((ucast (b0::u8) :: s32) AND 0x0F) OR (ucast (b1::u8) :: s32)) :: u16) =
     push_bit 8 (ucast (b0 AND 0x0F)) OR ucast b1"
  unfolding mask_numerals
  by (rule bit_word_eqI) (auto simp add: bit_simps)

lemma cast_channel: "(ucast (push_bit 3 (ucast (c::u8) :: s32)) :: u8) = push_bit 3 c"
  by (rule bit_word_eqI) (auto simp add: bit_simps)

lemma cast_and_fff: "(ucast ((ucast (v::u16) :: s32) AND 0xFFF) :: u16) = v AND 0xFFF"
  unfolding mask_numerals
  by (rule bit_word_eqI) (auto simp add: bit_simps)

lemma reg_casts:
  "(ucast PD_REG :: u8) = 0x09" "(ucast GAIN_REG :: u8) = 0x0A" "(ucast VREF_REG :: u8) = 0x08"
  "(ucast DAC0_REG :: u8) = 0x00" "(ucast DAC1_REG :: u8) = 0x01"
  "(ucast DAC0_EP_REG :: u8) = 0x10" "(ucast DAC1_EP_REG :: u8) = 0x11"
  "(ucast VREF_EP_REG :: u8) = 0x18" "(ucast GAIN_EP_REG :: u8) = 0x1A"
  "(ucast PD_EP_REG :: u8) = 0x19"
  by (simp_all add: reg_defs)

lemma cast_pack2:
  "(ucast ((ucast (x::u16) :: s32) OR push_bit 2 (ucast (y::u16) :: s32)) :: u16) =
     x OR push_bit 2 y"
  by (rule bit_word_eqI) (auto simp add: bit_simps)

lemma cast_pack2_bytes:
  "(ucast ((ucast (x::u8) :: s32) OR push_bit 2 (ucast (y::u8) :: s32)) :: u16) =
     ucast x OR push_bit 2 (ucast y)"
  by (rule bit_word_eqI) (auto simp add: bit_simps)

lemma cast_pack_gain:
  "(ucast (push_bit 8 ((ucast (x::u8) :: s32) OR push_bit 1 (ucast (y::u8) :: s32))) :: u16) =
     push_bit 8 (ucast x OR push_bit 1 (ucast y))"
  apply (rule bit_word_eqI)
  apply (simp only: bit_ucast_iff bit_push_bit_iff bit_or_iff)
  apply (auto simp add: bit_simps)
  done

text \<open>A value in 0..3 has no bit above bit 1, so packing two of them loses nothing.\<close>

lemma le3_bits:
  fixes v :: s32
  assumes "v \<le> 3" and "bit v n"
  shows "n < 2"
proof -
  have "v < 2 ^ 2"
    using assms(1) by (simp add: word_less_nat_alt word_le_nat_alt)
  then have "v AND mask 2 = v"
    by (rule less_mask_eq)
  then have "bit (v AND mask 2) n"
    using assms(2) by simp
  then show "n < 2"
    by (simp add: bit_simps)
qed

lemma unpack0:
  fixes v0 v1 :: s32
  assumes "v0 \<le> 3"
  shows "(ucast ((ucast (v0 OR push_bit 2 v1) :: u8) AND 0x03) :: s32) = v0"
  unfolding mask_numerals
  by (rule bit_word_eqI) (auto simp add: bit_simps dest: le3_bits [OF assms])

lemma unpack1:
  fixes v0 v1 :: s32
  assumes "v0 \<le> 3" "v1 \<le> 3"
  shows "(ucast (drop_bit 2 ((ucast (v0 OR push_bit 2 v1) :: u8) AND 0x0C)) :: s32) = v1"
  unfolding shifted_masks
  by (rule bit_word_eqI)
    (auto simp add: bit_simps dest: le3_bits [OF assms(1)] le3_bits [OF assms(2)])

section \<open>What each framing function puts on the bus\<close>

lemma ReadAddr_eq:
  "ReadAddr d r buf s =
     (let tr = bus s @ [Transmit (hi2c d) (DevAddress8 d) [0x06 OR push_bit 3 r],
                        Receive (hi2c d) (DevAddress8 d) 2]
      in (received (take 2 (device s tr)) buf, s\<lparr>bus := tr\<rparr>))"
  by (simp add: ReadAddr_def HAL_I2C_Master_Transmit_def HAL_I2C_Master_Receive_def
      Let_def cast_read)

lemma ReadEpAddr_eq:
  "ReadEpAddr d r buf s =
     (let tr = bus s @ [Transmit (hi2c d) (DevAddress8 d) [0x80 OR (0x06 OR push_bit 3 r)],
                        Receive (hi2c d) (DevAddress8 d) 2]
      in (received (take 2 (device s tr)) buf, s\<lparr>bus := tr\<rparr>))"
  by (simp add: ReadEpAddr_def HAL_I2C_Master_Transmit_def HAL_I2C_Master_Receive_def
      Let_def cast_read_ep)

lemma FastWrite_eq:
  "FastWrite d r v s =
     s\<lparr>bus := bus s @
        [Transmit (hi2c d) (DevAddress8 d) [push_bit 3 r, ucast (drop_bit 8 v), ucast v]]\<rparr>"
  by (simp add: FastWrite_def HAL_I2C_Master_Transmit_def Let_def
      cast_fast0 cast_fast1 cast_fast2)

lemma WriteAddr_eq:
  "WriteAddr d r data s =
     s\<lparr>bus := bus s @
        [Transmit (hi2c d) (DevAddress8 d)
           (if r = 0x0A then [r, data, 0] else [r, 0, data])]\<rparr>"
  by (simp add: WriteAddr_def HAL_I2C_Master_Transmit_def Let_def cast_addr0 is_gain)

section \<open>The accessors without the integer promotions\<close>

lemma GetPowerDown_eq:
  "MCP47FEB_GetPowerDown c s =
     (let (rb, s1) = ReadAddr (dac s) 0x09 (readBuffer s) s
      in (if c = 0 then rb ! 1 AND 0x03 else drop_bit 2 (rb ! 1 AND 0x0C),
          s1\<lparr>readBuffer := rb\<rparr>))"
  unfolding MCP47FEB_GetPowerDown_def Let_def cast_field0 cast_field1 reg_casts ..

lemma GetPowerDownEp_eq:
  "MCP47FEB_GetPowerDownEp c s =
     (let (rb, s1) = ReadEpAddr (dac s) 0x09 (readBuffer s) s
      in (if c = 0 then rb ! 1 AND 0x03 else drop_bit 2 (rb ! 1 AND 0x0C),
          s1\<lparr>readBuffer := rb\<rparr>))"
  unfolding MCP47FEB_GetPowerDownEp_def Let_def cast_field0 cast_field1 reg_casts ..

lemma GetGain_eq:
  "MCP47FEB_GetGain c s =
     (let (buff, s1) = ReadAddr (dac s) 0x0A [0, 0, 0, 0, 0] s
      in (if c = 0 then buff ! 0 AND 0x01 else drop_bit 1 (buff ! 0 AND 0x02), s1))"
  unfolding MCP47FEB_GetGain_def Let_def cast_gain0 cast_gain1 reg_casts ..

lemma GetGainEp_eq:
  "MCP47FEB_GetGainEp c s =
     (let (rb, s1) = ReadEpAddr (dac s) 0x0A (readBuffer s) s
      in (if c = 0 then rb ! 0 AND 0x01 else drop_bit 1 (rb ! 0 AND 0x02),
          s1\<lparr>readBuffer := rb\<rparr>))"
  unfolding MCP47FEB_GetGainEp_def Let_def cast_gain0 cast_gain1 reg_casts ..

lemma GetVref_eq:
  "MCP47FEB_GetVref c s =
     (let (rb, s1) = ReadAddr (dac s) 0x08 (readBuffer s) s
      in (if c = 0 then rb ! 1 AND 0x03 else drop_bit 2 (rb ! 1 AND 0x0C),
          s1\<lparr>readBuffer := rb\<rparr>))"
  unfolding MCP47FEB_GetVref_def Let_def cast_field0 cast_field1 reg_casts ..

lemma GetVrefEp_eq:
  "MCP47FEB_GetVrefEp c s =
     (let (rb, s1) = ReadEpAddr (dac s) 0x08 (readBuffer s) s
      in (if c = 0 then rb ! 1 AND 0x03 else drop_bit 2 (rb ! 1 AND 0x0C),
          s1\<lparr>readBuffer := rb\<rparr>))"
  unfolding MCP47FEB_GetVrefEp_def Let_def cast_field0 cast_field1 reg_casts ..

lemma GetValue_eq:
  "MCP47FEB_GetValue c s =
     (let (rb, s1) = ReadAddr (dac s) (push_bit 3 c) (readBuffer s) s
      in (push_bit 8 (ucast (rb ! 0 AND 0x0F)) OR ucast (rb ! 1), s1\<lparr>readBuffer := rb\<rparr>))"
  unfolding MCP47FEB_GetValue_def Let_def cast_value cast_channel ..

section \<open>What a call leaves alone\<close>

lemma ReadAddr_frame:
  "dac (snd (ReadAddr d r buf s)) = dac s" "device (snd (ReadAddr d r buf s)) = device s"
  "readBuffer (snd (ReadAddr d r buf s)) = readBuffer s"
  by (simp_all add: ReadAddr_eq Let_def)

lemma ReadEpAddr_frame:
  "dac (snd (ReadEpAddr d r buf s)) = dac s" "device (snd (ReadEpAddr d r buf s)) = device s"
  "readBuffer (snd (ReadEpAddr d r buf s)) = readBuffer s"
  by (simp_all add: ReadEpAddr_eq Let_def)

lemma FastWrite_frame:
  "dac (FastWrite d r v s) = dac s" "device (FastWrite d r v s) = device s"
  "readBuffer (FastWrite d r v s) = readBuffer s"
  by (simp_all add: FastWrite_eq)

lemma WriteAddr_frame:
  "dac (WriteAddr d r v s) = dac s" "device (WriteAddr d r v s) = device s"
  "readBuffer (WriteAddr d r v s) = readBuffer s"
  by (simp_all add: WriteAddr_eq)

lemma getters_frame:
  "dac (snd (MCP47FEB_GetPowerDown c s)) = dac s"
  "dac (snd (MCP47FEB_GetPowerDownEp c s)) = dac s"
  "dac (snd (MCP47FEB_GetGain c s)) = dac s"
  "dac (snd (MCP47FEB_GetGainEp c s)) = dac s"
  "dac (snd (MCP47FEB_GetVref c' s)) = dac s"
  "dac (snd (MCP47FEB_GetVrefEp c' s)) = dac s"
  "dac (snd (MCP47FEB_GetValue c' s)) = dac s"
  by (simp_all add: GetPowerDown_eq GetPowerDownEp_eq GetGain_eq GetGainEp_eq GetVref_eq
      GetVrefEp_eq GetValue_eq Let_def split_beta ReadAddr_frame ReadEpAddr_frame)

lemma EEPROMWrite_dac: "dac (MCP47FEB_EEPROMWrite s) = dac s"
  unfolding MCP47FEB_EEPROMWrite_def
  by (simp add: Let_def split_beta FastWrite_frame getters_frame)

section \<open>The accessors in terms of the buffer after the read\<close>

text \<open>
  In each lemma \<open>b0 # b1 # rest\<close> is the buffer after the receive: the bytes that
  arrived, or what was there before where the transfer fell short.
\<close>

lemma ReadAddr_got:
  assumes "received (take 2 (device s (bus s @
               [Transmit (hi2c d) (DevAddress8 d) [0x06 OR push_bit 3 r],
                Receive (hi2c d) (DevAddress8 d) 2]))) buf = b0 # b1 # rest"
  shows "ReadAddr d r buf s =
           (b0 # b1 # rest,
            s\<lparr>bus := bus s @ [Transmit (hi2c d) (DevAddress8 d) [0x06 OR push_bit 3 r],
                               Receive (hi2c d) (DevAddress8 d) 2]\<rparr>)"
  using assms by (simp add: ReadAddr_eq Let_def)

lemma GetValue_got:
  assumes "received (take 2 (device s (bus s @
               [Transmit (hi2c (dac s)) (DevAddress8 (dac s)) [0x06 OR push_bit 3 (push_bit 3 c)],
                Receive (hi2c (dac s)) (DevAddress8 (dac s)) 2]))) (readBuffer s) =
             b0 # b1 # rest"
  shows "MCP47FEB_GetValue c s =
           (push_bit 8 (ucast (b0 AND 0x0F)) OR ucast b1,
            s\<lparr>readBuffer := b0 # b1 # rest,
              bus := bus s @ [Transmit (hi2c (dac s)) (DevAddress8 (dac s))
                                [0x06 OR push_bit 3 (push_bit 3 c)],
                              Receive (hi2c (dac s)) (DevAddress8 (dac s)) 2]\<rparr>)"
  unfolding GetValue_eq ReadAddr_got [OF assms] by simp

lemma GetVref_got:
  assumes "received (take 2 (device s (bus s @
               [Transmit (hi2c (dac s)) (DevAddress8 (dac s)) [0x46],
                Receive (hi2c (dac s)) (DevAddress8 (dac s)) 2]))) (readBuffer s) =
             b0 # b1 # rest"
  shows "MCP47FEB_GetVref c s =
           (if c = 0 then b1 AND 0x03 else drop_bit 2 (b1 AND 0x0C),
            s\<lparr>readBuffer := b0 # b1 # rest,
              bus := bus s @ [Transmit (hi2c (dac s)) (DevAddress8 (dac s)) [0x46],
                              Receive (hi2c (dac s)) (DevAddress8 (dac s)) 2]\<rparr>)"
proof -
  have "received (take 2 (device s (bus s @
            [Transmit (hi2c (dac s)) (DevAddress8 (dac s)) [0x06 OR push_bit 3 0x08],
             Receive (hi2c (dac s)) (DevAddress8 (dac s)) 2]))) (readBuffer s) =
          b0 # b1 # rest"
    using assms by simp
  from ReadAddr_got [OF this] show ?thesis
    unfolding GetVref_eq by simp
qed

lemma GetGain_got:
  assumes "received (take 2 (device s (bus s @
               [Transmit (hi2c (dac s)) (DevAddress8 (dac s)) [0x56],
                Receive (hi2c (dac s)) (DevAddress8 (dac s)) 2]))) [0, 0, 0, 0, 0] =
             b0 # b1 # rest"
  shows "MCP47FEB_GetGain c s =
           (if c = 0 then b0 AND 0x01 else drop_bit 1 (b0 AND 0x02),
            s\<lparr>bus := bus s @ [Transmit (hi2c (dac s)) (DevAddress8 (dac s)) [0x56],
                              Receive (hi2c (dac s)) (DevAddress8 (dac s)) 2]\<rparr>)"
proof -
  have "received (take 2 (device s (bus s @
            [Transmit (hi2c (dac s)) (DevAddress8 (dac s)) [0x06 OR push_bit 3 0x0A],
             Receive (hi2c (dac s)) (DevAddress8 (dac s)) 2]))) [0, 0, 0, 0, 0] =
          b0 # b1 # rest"
    using assms by simp
  from ReadAddr_got [OF this] show ?thesis
    unfolding GetGain_eq by simp
qed

lemma GetPowerDown_got:
  assumes "received (take 2 (device s (bus s @
               [Transmit (hi2c (dac s)) (DevAddress8 (dac s)) [0x4E],
                Receive (hi2c (dac s)) (DevAddress8 (dac s)) 2]))) (readBuffer s) =
             b0 # b1 # rest"
  shows "MCP47FEB_GetPowerDown c s =
           (if c = 0 then b1 AND 0x03 else drop_bit 2 (b1 AND 0x0C),
            s\<lparr>readBuffer := b0 # b1 # rest,
              bus := bus s @ [Transmit (hi2c (dac s)) (DevAddress8 (dac s)) [0x4E],
                              Receive (hi2c (dac s)) (DevAddress8 (dac s)) 2]\<rparr>)"
proof -
  have "received (take 2 (device s (bus s @
            [Transmit (hi2c (dac s)) (DevAddress8 (dac s)) [0x06 OR push_bit 3 0x09],
             Receive (hi2c (dac s)) (DevAddress8 (dac s)) 2]))) (readBuffer s) =
          b0 # b1 # rest"
    using assms by simp
  from ReadAddr_got [OF this] show ?thesis
    unfolding GetPowerDown_eq by simp
qed

text \<open>\<open>MCP47FEB_EEPROMWrite\<close> as its thirteen calls, one after the other.\<close>

lemma EEPROMWrite_steps:
  assumes "MCP47FEB_GetValue 0 s = (value0, s1)"
      and "MCP47FEB_GetValue 1 (FastWrite (dac s1) 0x10 value0 s1) = (value1, s3)"
      and "MCP47FEB_GetVref 0 (FastWrite (dac s3) 0x11 value1 s3) = (r0, s5)"
      and "MCP47FEB_GetVref 1 s5 = (r1, s6)"
      and "MCP47FEB_GetGain 0
             (FastWrite (dac s6) 0x18 (ucast r0 OR push_bit 2 (ucast r1)) s6) = (g0, s8)"
      and "MCP47FEB_GetGain 1 s8 = (g1, s9)"
      and "MCP47FEB_GetPowerDown 0
             (FastWrite (dac s9) 0x1A (push_bit 8 (ucast g0 OR push_bit 1 (ucast g1))) s9) =
           (p0, s11)"
      and "MCP47FEB_GetPowerDown 1 s11 = (p1, s12)"
  shows "MCP47FEB_EEPROMWrite s =
           FastWrite (dac s12) 0x19 (ucast p0 OR push_bit 2 (ucast p1)) s12"
  unfolding MCP47FEB_EEPROMWrite_def reg_casts cast_pack2 cast_pack2_bytes cast_pack_gain
  using assms by (simp add: Let_def)

section \<open>The simulated device after a write to the power-down register\<close>

lemma sim_PD_first_read:
  "sim_device (tr @ [Transmit h a [0x09, p1, p2], Transmit h' a' [0x4E], Receive h'' a'' n]) =
     [p1, p2]"
  by (simp add: sim_device_def)

lemma sim_PD_second_read:
  "sim_device (tr @ [Transmit h a [0x09, p1, p2], Transmit h' a' [0x4E], Receive h'' a'' n,
                     Transmit h1 a1 [0x4E], Receive h2 a2 n']) = [p1, p2]"
  by (simp add: sim_device_def)

lemma sim_configured_eq:
  "sim_configured =
     \<lparr>dac = \<lparr>devAddr = 0x60, hi2c = ()\<rparr>, readBuffer = [0, 0, 0, 0, 0],
      bus = [Transmit () 0xC0 [0x08, 0x00, 0x06], Transmit () 0xC0 [0x0A, 0x02, 0x00],
             Transmit () 0xC0 [0x09, 0x00, 0x09]],
      device = sim_device, ready = (\<lambda>_. HAL_OK)\<rparr>"
  by (simp add: sim_configured_def sim_start_def MCP47FEB_Init_def MCP47FEB_SetVref_def
      MCP47FEB_SetGain_def MCP47FEB_SetPowerDown_def WriteAddr_eq reg_casts DevAddress8_def)

section \<open>Claims about the framing\<close>

text \<open>
  C4. For every register index, and so for each of DAC0 = 0x00, DAC1 = 0x01, VREF = 0x08,
  PD = 0x09, GAIN = 0x0A and WL = 0x0B, the streamed read \<open>_ReadAddr\<close> transmits the
  single command byte \<open>0x06 | (index << 3)\<close> and the mirror variant \<open>_ReadEpAddr\<close>
  transmits that byte with \<open>0x80\<close> set; each then asks for exactly two bytes, which
  land at the front of the buffer it was given. For the six registers the command bytes
  are 0x06, 0x0E, 0x46, 0x4E, 0x56, 0x5E and 0x86, 0x8E, 0xC6, 0xCE, 0xD6, 0xDE.
\<close>

theorem ReadAddr_command_byte:
  "ReadAddr d r buf s =
     (let tr = bus s @ [Transmit (hi2c d) (DevAddress8 d) [0x06 OR push_bit 3 r],
                        Receive (hi2c d) (DevAddress8 d) 2]
      in (received (take 2 (device s tr)) buf, s\<lparr>bus := tr\<rparr>))
   \<and> ReadEpAddr d r buf s =
     (let tr = bus s @ [Transmit (hi2c d) (DevAddress8 d) [(0x06 OR push_bit 3 r) OR 0x80],
                        Receive (hi2c d) (DevAddress8 d) 2]
      in (received (take 2 (device s tr)) buf, s\<lparr>bus := tr\<rparr>))
   \<and> map (\<lambda>r. bus (snd (ReadAddr d r buf (s\<lparr>bus := []\<rparr>))))
         [0x00, 0x01, 0x08, 0x09, 0x0A, 0x0B] =
       map (\<lambda>c. [Transmit (hi2c d) (DevAddress8 d) [c], Receive (hi2c d) (DevAddress8 d) 2])
         [0x06, 0x0E, 0x46, 0x4E, 0x56, 0x5E]
   \<and> map (\<lambda>r. bus (snd (ReadEpAddr d r buf (s\<lparr>bus := []\<rparr>))))
         [0x00, 0x01, 0x08, 0x09, 0x0A, 0x0B] =
       map (\<lambda>c. [Transmit (hi2c d) (DevAddress8 d) [c], Receive (hi2c d) (DevAddress8 d) 2])
         [0x86, 0x8E, 0xC6, 0xCE, 0xD6, 0xDE]"
  by (simp add: ReadAddr_eq ReadEpAddr_eq Let_def or.commute)

text \<open>
  C5. For every register index \<open>r\<close> and every 16-bit value \<open>v\<close>, the fast write
  \<open>_FastWrite\<close> makes one transmission of exactly three bytes: the command byte
  \<open>(r << 3) | 0x00\<close>, then \<open>(v >> 8) & 0xFF\<close>, then \<open>v & 0xFF\<close>; nothing else of the
  state changes.
\<close>

theorem FastWrite_payload:
  "FastWrite d r v s =
     s\<lparr>bus := bus s @
        [Transmit (hi2c d) (DevAddress8 d)
           [push_bit 3 r OR 0x00, ucast (drop_bit 8 v AND 0xFF), ucast (v AND 0xFF)]]\<rparr>"
proof -
  have "(ucast (drop_bit 8 v AND 0xFF) :: u8) = ucast (drop_bit 8 v)"
    unfolding mask_numerals by (rule bit_word_eqI) (auto simp add: bit_simps)
  moreover have "(ucast (v AND 0xFF) :: u8) = ucast v"
    unfolding mask_numerals by (rule bit_word_eqI) (auto simp add: bit_simps)
  ultimately show ?thesis
    by (simp add: FastWrite_eq)
qed

text \<open>
  C6. For every data byte \<open>d\<close>, the addressed write \<open>_WriteAddr\<close> transmits three bytes
  whose command byte is \<open>register | 0x00\<close>, not shifted. When the register is GAIN
  (0x0A) the data byte is at payload position 1 and position 2 is zero; for every other
  register index the data byte is at position 2 and position 1 is zero. So
  \<open>MCP47FEB_SetGain\<close> sends its packed byte at position 1.
\<close>

theorem WriteAddr_payload:
  "WriteAddr d r data s =
     s\<lparr>bus := bus s @
        [Transmit (hi2c d) (DevAddress8 d)
           (if r = 0x0A then [r OR 0x00, data, 0] else [r OR 0x00, 0, data])]\<rparr>
   \<and> MCP47FEB_SetGain val0 val1 s =
     s\<lparr>bus := bus s @
        [Transmit (hi2c (dac s)) (DevAddress8 (dac s))
           [0x0A, ucast (val0 OR push_bit 1 val1), 0]]\<rparr>"
  by (simp add: WriteAddr_eq MCP47FEB_SetGain_def GAIN_REG_def)

section \<open>Claims about the operations\<close>

text \<open>
  C7. For all 16-bit \<open>val0\<close> and \<open>val1\<close>, \<open>MCP47FEB_AnalogWrite\<close> cuts each to 12 bits
  and makes exactly two fast writes: \<open>val0 & 0xFFF\<close> to register DAC0 (0x00), then
  \<open>val1 & 0xFFF\<close> to register DAC1 (0x01). For the arguments 4096 and 5000 the values
  sent are \<open>4096 & 0xFFF = 0\<close> and \<open>5000 & 0xFFF = 0x1388 & 0xFFF\<close> (0x388).
\<close>

theorem AnalogWrite_truncates:
  "MCP47FEB_AnalogWrite val0 val1 s =
     FastWrite (dac s) 0x01 (val1 AND 0xFFF) (FastWrite (dac s) 0x00 (val0 AND 0xFFF) s)
   \<and> bus (MCP47FEB_AnalogWrite val0 val1 s) =
     bus s @
       [Transmit (hi2c (dac s)) (DevAddress8 (dac s))
          [0x00, ucast (drop_bit 8 (val0 AND 0xFFF)), ucast (val0 AND 0xFFF)],
        Transmit (hi2c (dac s)) (DevAddress8 (dac s))
          [0x08, ucast (drop_bit 8 (val1 AND 0xFFF)), ucast (val1 AND 0xFFF)]]
   \<and> (4096 :: u16) AND 0xFFF = 0
   \<and> (5000 :: u16) AND 0xFFF = 0x1388 AND 0xFFF
   \<and> bus (MCP47FEB_AnalogWrite 4096 5000 s) =
     bus s @
       [Transmit (hi2c (dac s)) (DevAddress8 (dac s)) [0x00, 0x00, 0x00],
        Transmit (hi2c (dac s)) (DevAddress8 (dac s)) [0x08, 0x03, 0x88]]"
  by (simp add: MCP47FEB_AnalogWrite_def Let_def cast_and_fff reg_casts FastWrite_eq)

text \<open>
  C3. For every handle and every address \<open>a\<close> (so for every 7-bit one),
  \<open>MCP47FEB_LockSALCK\<close> does what \<open>MCP47FEB_UnlockSALCK\<close> does on a handle that carries
  \<open>a\<close> and the caller's transport: one addressed write to the 8-bit address of \<open>a\<close>
  with command byte \<open>0xD0 | 0x02 = 0xD2\<close> (the unlock constant, not the lock constant
  \<open>0xD0 | 0x04 = 0xD4\<close>) and data byte 0. The caller's handle is left as it was.
\<close>

theorem LockSALCK_is_unlock:
  "MCP47FEB_LockSALCK a s =
     (MCP47FEB_UnlockSALCK (s\<lparr>dac := \<lparr>devAddr = a, hi2c = hi2c (dac s)\<rparr>\<rparr>))\<lparr>dac := dac s\<rparr>
   \<and> bus (MCP47FEB_LockSALCK a s) =
       bus (MCP47FEB_UnlockSALCK (s\<lparr>dac := \<lparr>devAddr = a, hi2c = hi2c (dac s)\<rparr>\<rparr>))
   \<and> bus (MCP47FEB_LockSALCK a s) =
       bus s @ [Transmit (hi2c (dac s)) (DevAddress8 \<lparr>devAddr = a, hi2c = hi2c (dac s)\<rparr>)
                  [0xD2, 0, 0]]
   \<and> (ucast (SALCK OR UNLOCK_SALCK) :: u8) = 0xD2
   \<and> (ucast (SALCK OR LOCK_SALCK) :: u8) = 0xD4
   \<and> dac (MCP47FEB_LockSALCK a s) = dac s"
  by (simp add: MCP47FEB_LockSALCK_def MCP47FEB_UnlockSALCK_def WriteAddr_eq Let_def
      SALCK_def UNLOCK_SALCK_def LOCK_SALCK_def)

text \<open>
  C9. \<open>MCP47FEB_Init\<close> stores the address and the transport handle it is given in the
  handle object and does nothing else: no call on the bus, no status to fail with.
  After that no operation of the driver changes the handle object, whatever it does to
  the bus and the scratch buffer. \<open>MCP47FEB_LockSALCK\<close> in particular works on a
  temporary handle of its own, so the address bound by \<open>MCP47FEB_Init\<close> is still
  there after it.
\<close>

theorem handle_fixed_after_Init:
  "MCP47FEB_Init a h s = s\<lparr>dac := \<lparr>devAddr = a, hi2c = h\<rparr>\<rparr>
   \<and> devAddr (dac (MCP47FEB_Init a h s)) = a
   \<and> hi2c (dac (MCP47FEB_Init a h s)) = h
   \<and> bus (MCP47FEB_Init a h s) = bus s
   \<and> dac (snd (MCP47FEB_IsReady s)) = dac s
   \<and> dac (MCP47FEB_UnlockSALCK s) = dac s
   \<and> dac (MCP47FEB_LockSALCK a' s) = dac s
   \<and> devAddr (dac (MCP47FEB_LockSALCK a' (MCP47FEB_Init a h s))) = a
   \<and> dac (snd (MCP47FEB_GetPowerDown c s)) = dac s
   \<and> dac (MCP47FEB_SetPowerDown v0 v1 s) = dac s
   \<and> dac (snd (MCP47FEB_GetPowerDownEp c s)) = dac s
   \<and> dac (snd (MCP47FEB_GetGain c s)) = dac s
   \<and> dac (MCP47FEB_SetGain v0 v1 s) = dac s
   \<and> dac (snd (MCP47FEB_GetGainEp c s)) = dac s
   \<and> dac (snd (MCP47FEB_GetVref c' s)) = dac s
   \<and> dac (MCP47FEB_SetVref w0 w1 s) = dac s
   \<and> dac (snd (MCP47FEB_GetVrefEp c' s)) = dac s
   \<and> dac (snd (MCP47FEB_GetValue c' s)) = dac s
   \<and> dac (MCP47FEB_AnalogWrite x0 x1 s) = dac s
   \<and> dac (MCP47FEB_EEPROMWrite s) = dac s"
  by (simp add: MCP47FEB_Init_def MCP47FEB_IsReady_def HAL_I2C_IsDeviceReady_def Let_def
      MCP47FEB_UnlockSALCK_def MCP47FEB_LockSALCK_def MCP47FEB_SetPowerDown_def
      MCP47FEB_SetGain_def MCP47FEB_SetVref_def MCP47FEB_AnalogWrite_def
      WriteAddr_frame FastWrite_frame getters_frame EEPROMWrite_dac)

text \<open>
  C10. In each of the six per-channel get accessors only \<open>channel == 0\<close> selects the
  channel-0 field; every other argument (2, anything larger, and for the \<open>int\<close>
  parameters anything negative) selects the channel-1 field. The power-down and
  reference fields are bits 0-1 and 2-3 of the second byte read, the gain fields bits 0
  and 1 of the first byte read. The result is at most 3 for the two-bit fields and at
  most 1 for gain. \<open>c\<close> is an \<open>int\<close> argument, \<open>c'\<close> a \<open>uint8_t\<close> one.
\<close>

theorem channel_selection:
  "fst (MCP47FEB_GetPowerDown c s) =
     (let b = fst (ReadAddr (dac s) 0x09 (readBuffer s) s) ! 1
      in if c = 0 then b AND 0x03 else drop_bit 2 (b AND 0x0C))
   \<and> fst (MCP47FEB_GetPowerDownEp c s) =
     (let b = fst (ReadEpAddr (dac s) 0x09 (readBuffer s) s) ! 1
      in if c = 0 then b AND 0x03 else drop_bit 2 (b AND 0x0C))
   \<and> fst (MCP47FEB_GetGain c s) =
     (let b = fst (ReadAddr (dac s) 0x0A [0, 0, 0, 0, 0] s) ! 0
      in if c = 0 then b AND 0x01 else drop_bit 1 (b AND 0x02))
   \<and> fst (MCP47FEB_GetGainEp c s) =
     (let b = fst (ReadEpAddr (dac s) 0x0A (readBuffer s) s) ! 0
      in if c = 0 then b AND 0x01 else drop_bit 1 (b AND 0x02))
   \<and> fst (MCP47FEB_GetVref c' s) =
     (let b = fst (ReadAddr (dac s) 0x08 (readBuffer s) s) ! 1
      in if c' = 0 then b AND 0x03 else drop_bit 2 (b AND 0x0C))
   \<and> fst (MCP47FEB_GetVrefEp c' s) =
     (let b = fst (ReadEpAddr (dac s) 0x08 (readBuffer s) s) ! 1
      in if c' = 0 then b AND 0x03 else drop_bit 2 (b AND 0x0C))
   \<and> fst (MCP47FEB_GetPowerDown c s) \<le> 3 \<and> fst (MCP47FEB_GetPowerDownEp c s) \<le> 3
   \<and> fst (MCP47FEB_GetVref c' s) \<le> 3 \<and> fst (MCP47FEB_GetVrefEp c' s) \<le> 3
   \<and> fst (MCP47FEB_GetGain c s) \<le> 1 \<and> fst (MCP47FEB_GetGainEp c s) \<le> 1"
  unfolding GetPowerDown_eq GetPowerDownEp_eq GetGain_eq GetGainEp_eq GetVref_eq GetVrefEp_eq
    Let_def split_beta fst_conv
  using field0_le field1_le gain0_le gain1_le by auto

text \<open>
  On the configured device: channel arguments 0, 1, 2, \<open>-1\<close> and 255.
\<close>

theorem channel_selection_witness:
  "fst (MCP47FEB_GetPowerDown 0 sim_configured) = 1
   \<and> fst (MCP47FEB_GetPowerDown 1 sim_configured) = 2
   \<and> fst (MCP47FEB_GetPowerDown 2 sim_configured) = 2
   \<and> fst (MCP47FEB_GetPowerDown (- 1) sim_configured) = 2
   \<and> fst (MCP47FEB_GetGain 0 sim_configured) = 0
   \<and> fst (MCP47FEB_GetGain 1 sim_configured) = 1
   \<and> fst (MCP47FEB_GetGain 2 sim_configured) = 1
   \<and> fst (MCP47FEB_GetGain (- 1) sim_configured) = 1
   \<and> fst (MCP47FEB_GetVref 0 sim_configured) = 2
   \<and> fst (MCP47FEB_GetVref 1 sim_configured) = 1
   \<and> fst (MCP47FEB_GetVref 2 sim_configured) = 1
   \<and> fst (MCP47FEB_GetVref 255 sim_configured) = 1"
  using channel_selection [of 0 sim_configured 0] channel_selection [of 1 sim_configured 1]
    channel_selection [of 2 sim_configured 2] channel_selection [of "- 1" sim_configured 255]
  unfolding sim_configured_eq
  by (simp add: ReadAddr_eq ReadEpAddr_eq Let_def sim_device_def DevAddress8_def received_def)

text \<open>
  C1, what the code does. \<open>MCP47FEB_GetValue\<close> shifts the channel left by three and
  \<open>_ReadAddr\<close> shifts its register argument left by three again. The value returned is
  the low nibble of the first byte read above the second byte read, but the register
  read is \<open>channel << 3\<close>: for channel 0 the command byte is 0x06 (DAC0), for channel 1
  it is 0x46, the read of the reference register 0x08 that \<open>MCP47FEB_GetVref\<close> makes,
  and not 0x0E (DAC1, register 0x01).
\<close>

theorem GetValue_channel1_command:
  "MCP47FEB_GetValue c' s =
     (let (rb, s1) = ReadAddr (dac s) (push_bit 3 c') (readBuffer s) s
      in (push_bit 8 (ucast (rb ! 0 AND 0x0F)) OR ucast (rb ! 1), s1\<lparr>readBuffer := rb\<rparr>))
   \<and> bus (snd (MCP47FEB_GetValue 0 s)) =
     bus s @ [Transmit (hi2c (dac s)) (DevAddress8 (dac s)) [0x06],
              Receive (hi2c (dac s)) (DevAddress8 (dac s)) 2]
   \<and> bus (snd (MCP47FEB_GetValue 1 s)) =
     bus s @ [Transmit (hi2c (dac s)) (DevAddress8 (dac s)) [0x46],
              Receive (hi2c (dac s)) (DevAddress8 (dac s)) 2]
   \<and> bus (snd (MCP47FEB_GetValue 1 s)) = bus (snd (MCP47FEB_GetVref 1 s))
   \<and> bus (snd (MCP47FEB_GetValue 1 s)) \<noteq>
     bus s @ [Transmit (hi2c (dac s)) (DevAddress8 (dac s)) [0x0E],
              Receive (hi2c (dac s)) (DevAddress8 (dac s)) 2]"
  by (simp add: GetValue_eq GetVref_eq ReadAddr_eq Let_def)

text \<open>
  C2. \<open>MCP47FEB_EEPROMWrite\<close> makes exactly five fast writes, to the registers DAC0_EP
  (0x10), DAC1_EP (0x11), VREF_EP (0x18), GAIN_EP (0x1A) and PD_EP (0x19) in this order
  (command bytes 0x80, 0x88, 0xC0, 0xD0, 0xC8), each after the reads of the get accessors
  whose result it carries. Let the buffer start with the bytes \<open>xk, yk\<close> after the
  \<open>k\<close>-th of the eight reads (the gain reads go to a zeroed local array, the others to
  \<open>readBuffer\<close>). The payloads are: the value of \<open>MCP47FEB_GetValue\<close> for channel 0, then
  for channel 1; \<open>vref0 | vref1 << 2\<close>; \<open>(gain0 | gain1 << 1) << 8\<close>, the only one shifted
  left by eight; and \<open>pd0 | pd1 << 2\<close>. The whole bus traffic of the call is the list
  \<open>t8\<close> followed by the last write, and nothing but the bus and \<open>readBuffer\<close> changes.
\<close>

theorem EEPROMWrite_transactions:
  fixes s :: "'h driver_state"
    and x1 y1 x2 y2 x3 y3 x4 y4 x5 y5 x6 y6 x7 y7 x8 y8 :: u8
  defines "h \<equiv> hi2c (dac s)" and "a \<equiv> DevAddress8 (dac s)"
  defines "value0 \<equiv> push_bit 8 (ucast (x1 AND 0x0F)) OR ucast y1 :: u16"
      and "value1 \<equiv> push_bit 8 (ucast (x2 AND 0x0F)) OR ucast y2 :: u16"
      and "vref \<equiv> ucast (y3 AND 0x03) OR push_bit 2 (ucast (drop_bit 2 (y4 AND 0x0C))) :: u16"
      and "gain \<equiv> push_bit 8
                    (ucast (x5 AND 0x01) OR push_bit 1 (ucast (drop_bit 1 (x6 AND 0x02)))) :: u16"
      and "pd \<equiv> ucast (y7 AND 0x03) OR push_bit 2 (ucast (drop_bit 2 (y8 AND 0x0C))) :: u16"
  defines "t1 \<equiv> bus s @ [Transmit h a [0x06], Receive h a 2]"
  defines "t2 \<equiv> t1 @ [Transmit h a [0x80, ucast (drop_bit 8 value0), ucast value0],
                       Transmit h a [0x46], Receive h a 2]"
  defines "t3 \<equiv> t2 @ [Transmit h a [0x88, ucast (drop_bit 8 value1), ucast value1],
                       Transmit h a [0x46], Receive h a 2]"
  defines "t4 \<equiv> t3 @ [Transmit h a [0x46], Receive h a 2]"
  defines "t5 \<equiv> t4 @ [Transmit h a [0xC0, ucast (drop_bit 8 vref), ucast vref],
                       Transmit h a [0x56], Receive h a 2]"
  defines "t6 \<equiv> t5 @ [Transmit h a [0x56], Receive h a 2]"
  defines "t7 \<equiv> t6 @ [Transmit h a [0xD0, ucast (drop_bit 8 gain), ucast gain],
                       Transmit h a [0x4E], Receive h a 2]"
  defines "t8 \<equiv> t7 @ [Transmit h a [0x4E], Receive h a 2]"
  assumes r1: "received (take 2 (device s t1)) (readBuffer s) = x1 # y1 # z1"
      and r2: "received (take 2 (device s t2)) (x1 # y1 # z1) = x2 # y2 # z2"
      and r3: "received (take 2 (device s t3)) (x2 # y2 # z2) = x3 # y3 # z3"
      and r4: "received (take 2 (device s t4)) (x3 # y3 # z3) = x4 # y4 # z4"
      and r5: "received (take 2 (device s t5)) [0, 0, 0, 0, 0] = x5 # y5 # z5"
      and r6: "received (take 2 (device s t6)) [0, 0, 0, 0, 0] = x6 # y6 # z6"
      and r7: "received (take 2 (device s t7)) (x4 # y4 # z4) = x7 # y7 # z7"
      and r8: "received (take 2 (device s t8)) (x7 # y7 # z7) = x8 # y8 # z8"
  shows "MCP47FEB_EEPROMWrite s =
           s\<lparr>readBuffer := x8 # y8 # z8,
             bus := t8 @ [Transmit h a [0xC8, ucast (drop_bit 8 pd), ucast pd]]\<rparr>"
proof -
  define s1 where "s1 = s\<lparr>readBuffer := x1 # y1 # z1, bus := t1\<rparr>"
  define s3 where "s3 = s\<lparr>readBuffer := x2 # y2 # z2, bus := t2\<rparr>"
  define s5 where "s5 = s\<lparr>readBuffer := x3 # y3 # z3, bus := t3\<rparr>"
  define s6 where "s6 = s\<lparr>readBuffer := x4 # y4 # z4, bus := t4\<rparr>"
  define s8 where "s8 = s6\<lparr>bus := t5\<rparr>"
  define s9 where "s9 = s6\<lparr>bus := t6\<rparr>"
  define s11 where "s11 = s\<lparr>readBuffer := x7 # y7 # z7, bus := t7\<rparr>"
  define s12 where "s12 = s\<lparr>readBuffer := x8 # y8 # z8, bus := t8\<rparr>"
  have e1: "MCP47FEB_GetValue 0 s = (value0, s1)"
    using r1 GetValue_got [of s 0 x1 y1 z1]
    by (simp add: s1_def t1_def h_def a_def value0_def)
  have e2: "MCP47FEB_GetValue 1 (FastWrite (dac s1) 0x10 value0 s1) = (value1, s3)"
    using r2 GetValue_got [of "FastWrite (dac s1) 0x10 value0 s1" 1 x2 y2 z2]
    by (simp add: s1_def s3_def t2_def h_def a_def value1_def FastWrite_eq)
  have e3: "MCP47FEB_GetVref 0 (FastWrite (dac s3) 0x11 value1 s3) = (y3 AND 0x03, s5)"
    using r3 GetVref_got [of "FastWrite (dac s3) 0x11 value1 s3" x3 y3 z3 0]
    by (simp add: s3_def s5_def t3_def h_def a_def FastWrite_eq)
  have e4: "MCP47FEB_GetVref 1 s5 = (drop_bit 2 (y4 AND 0x0C), s6)"
    using r4 GetVref_got [of s5 x4 y4 z4 1]
    by (simp add: s5_def s6_def t4_def h_def a_def)
  have e5: "MCP47FEB_GetGain 0 (FastWrite (dac s6) 0x18
              (ucast (y3 AND 0x03) OR push_bit 2 (ucast (drop_bit 2 (y4 AND 0x0C)))) s6) =
            (x5 AND 0x01, s8)"
    using r5 GetGain_got [of "FastWrite (dac s6) 0x18 vref s6" x5 y5 z5 0]
    by (simp add: s6_def s8_def t5_def h_def a_def FastWrite_eq vref_def)
  have e6: "MCP47FEB_GetGain 1 s8 = (drop_bit 1 (x6 AND 0x02), s9)"
    using r6 GetGain_got [of s8 x6 y6 z6 1]
    by (simp add: s6_def s8_def s9_def t6_def h_def a_def)
  have e7: "MCP47FEB_GetPowerDown 0 (FastWrite (dac s9) 0x1A
              (push_bit 8
                 (ucast (x5 AND 0x01) OR push_bit 1 (ucast (drop_bit 1 (x6 AND 0x02))))) s9) =
            (y7 AND 0x03, s11)"
    using r7 GetPowerDown_got [of "FastWrite (dac s9) 0x1A gain s9" x7 y7 z7 0]
    by (simp add: s6_def s9_def s11_def t7_def h_def a_def FastWrite_eq gain_def)
  have e8: "MCP47FEB_GetPowerDown 1 s11 = (drop_bit 2 (y8 AND 0x0C), s12)"
    using r8 GetPowerDown_got [of s11 x8 y8 z8 1]
    by (simp add: s11_def s12_def t8_def h_def a_def)
  show ?thesis
    unfolding EEPROMWrite_steps [OF e1 e2 e3 e4 e5 e6 e7 e8]
    by (simp add: FastWrite_eq s12_def pd_def h_def a_def)
qed

text \<open>
  The configured device read back and persisted. The first three entries are the
  setters' writes; then come the eight reads and five writes of \<open>MCP47FEB_EEPROMWrite\<close>.
\<close>

theorem EEPROMWrite_transactions_witness:
  "bus (MCP47FEB_EEPROMWrite sim_configured) =
   [Transmit () 0xC0 [0x08, 0x00, 0x06],
    Transmit () 0xC0 [0x0A, 0x02, 0x00],
    Transmit () 0xC0 [0x09, 0x00, 0x09],
    Transmit () 0xC0 [0x06], Receive () 0xC0 2,
    Transmit () 0xC0 [0x80, 0x00, 0x00],
    Transmit () 0xC0 [0x46], Receive () 0xC0 2,
    Transmit () 0xC0 [0x88, 0x00, 0x06],
    Transmit () 0xC0 [0x46], Receive () 0xC0 2,
    Transmit () 0xC0 [0x46], Receive () 0xC0 2,
    Transmit () 0xC0 [0xC0, 0x00, 0x06],
    Transmit () 0xC0 [0x56], Receive () 0xC0 2,
    Transmit () 0xC0 [0x56], Receive () 0xC0 2,
    Transmit () 0xC0 [0xD0, 0x02, 0x00],
    Transmit () 0xC0 [0x4E], Receive () 0xC0 2,
    Transmit () 0xC0 [0x4E], Receive () 0xC0 2,
    Transmit () 0xC0 [0xC8, 0x00, 0x09]]"
  using EEPROMWrite_transactions
    [of sim_configured 0 0 "[0, 0, 0]" 0 6 "[0, 0, 0]" 0 6 "[0, 0, 0]" 0 6 "[0, 0, 0]"
        2 0 "[0, 0, 0]" 2 0 "[0, 0, 0]" 0 9 "[0, 0, 0]" 0 9 "[0, 0, 0]"]
  unfolding sim_configured_eq
  by (simp add: sim_device_def DevAddress8_def received_def)

text \<open>
  C8. Against the simulated device, for all \<open>v0\<close> and \<open>v1\<close> in 0..3,
  \<open>MCP47FEB_SetPowerDown(dac, v0, v1)\<close> followed by \<open>MCP47FEB_GetPowerDown(dac, 0)\<close> and
  \<open>MCP47FEB_GetPowerDown(dac, 1)\<close> gives back \<open>v0\<close> and then \<open>v1\<close>; the results are
  compared as C compares them, as \<open>int\<close>.
\<close>

theorem PowerDown_round_trip:
  fixes s :: "'h driver_state" and v0 v1 :: s32
  assumes "device s = sim_device" and "v0 \<le> 3" and "v1 \<le> 3"
  shows "(let s1 = MCP47FEB_SetPowerDown v0 v1 s;
              (r0, s2) = MCP47FEB_GetPowerDown 0 s1;
              (r1, s3) = MCP47FEB_GetPowerDown 1 s2
          in (ucast r0 :: s32) = v0 \<and> (ucast r1 :: s32) = v1)"
proof -
  define d where "d = (ucast (v0 OR push_bit 2 v1) :: u8)"
  define s1 where "s1 = MCP47FEB_SetPowerDown v0 v1 s"
  have b1: "bus s1 = bus s @ [Transmit (hi2c (dac s)) (DevAddress8 (dac s)) [0x09, 0, d]]"
    and f1: "dac s1 = dac s" "device s1 = sim_device"
    using assms(1)
    by (simp_all add: s1_def d_def MCP47FEB_SetPowerDown_def WriteAddr_eq reg_casts)
  have "received (take 2 (device s1 (bus s1 @
            [Transmit (hi2c (dac s1)) (DevAddress8 (dac s1)) [0x4E],
             Receive (hi2c (dac s1)) (DevAddress8 (dac s1)) 2]))) (readBuffer s1) =
          0 # d # drop 2 (readBuffer s1)"
    by (simp add: b1 f1 sim_PD_first_read received_def numeral_2_eq_2)
  from GetPowerDown_got [OF this, of 0]
  obtain s2 where e2: "MCP47FEB_GetPowerDown 0 s1 = (d AND 0x03, s2)"
    and b2: "bus s2 = bus s1 @ [Transmit (hi2c (dac s1)) (DevAddress8 (dac s1)) [0x4E],
                                Receive (hi2c (dac s1)) (DevAddress8 (dac s1)) 2]"
    and f2: "dac s2 = dac s1" "device s2 = device s1"
    by simp
  have "received (take 2 (device s2 (bus s2 @
            [Transmit (hi2c (dac s2)) (DevAddress8 (dac s2)) [0x4E],
             Receive (hi2c (dac s2)) (DevAddress8 (dac s2)) 2]))) (readBuffer s2) =
          0 # d # drop 2 (readBuffer s2)"
    by (simp add: b2 b1 f2 f1 sim_PD_second_read received_def numeral_2_eq_2)
  from GetPowerDown_got [OF this, of 1]
  obtain s3 where e3: "MCP47FEB_GetPowerDown 1 s2 = (drop_bit 2 (d AND 0x0C), s3)"
    by simp
  have "(ucast (d AND 0x03) :: s32) = v0" "(ucast (drop_bit 2 (d AND 0x0C)) :: s32) = v1"
    unfolding d_def using assms(2,3) by (simp_all only: unpack0 unpack1)
  then show ?thesis
    unfolding s1_def [symmetric] Let_def e2 e3 split_conv by simp
qed

text \<open>The instance of the specification: power-down 0 and 1 written, 0 and 1 read back.\<close>

theorem PowerDown_round_trip_witness:
  "(let s1 = MCP47FEB_SetPowerDown 0 1 (MCP47FEB_Init 0x60 () sim_start);
        (r0, s2) = MCP47FEB_GetPowerDown 0 s1;
        (r1, s3) = MCP47FEB_GetPowerDown 1 s2
    in (ucast r0 :: s32) = 0 \<and> (ucast r1 :: s32) = 1)"
  using PowerDown_round_trip [of "MCP47FEB_Init 0x60 () sim_start" 0 1]
  by (simp add: MCP47FEB_Init_def sim_start_def)

end
